theory Spec2Isabelle
  imports Complex_Main "HOL-Library.Multiset"
begin

section \<open>The export service of the web editor (lib/ffmpeg-utils.ts, class VideoExportService)\<close>

text \<open>
  JavaScript numbers are finite reals: the places where the source would produce a non-finite
  value (a division by zero, an unset field) are written out as explicit cases. The
  arithmetic that decides a discrete outcome (which elements are active at a time, how many
  frames are drawn, the timestamp of a frame) is rounded after every operation as the
  source's IEEE doubles are (\<open>roundDouble\<close> below). The geometry and the sizes of what is
  drawn are computed over exact reals: the values the code computes differ from them by
  rounding only. Pixel sizes of canvases and media are the DOM's unsigned integers. Canvas
  calls are recorded as a list of drawing operations in the order the code issues them;
  promises are modelled by their outcome, and timers by the instants at which they are due.
\<close>

subsection \<open>Double-precision arithmetic\<close>

text \<open>
  A JavaScript number is an IEEE 754 binary64 value, and every arithmetic operation returns
  the exact result rounded to the nearest such value, ties to the even significand. A double
  has 53 significant bits and a binary exponent of at least \<open>-1022\<close> (below that the spacing
  of the subnormal numbers stays \<open>2 ^ -1074\<close>). Overflow to Infinity, beyond about
  \<open>1.8 * 10 ^ 308\<close>, is not modelled.
\<close>

definition roundHalfEven :: "real \<Rightarrow> int" where
  "roundHalfEven x =
     (let f = \<lfloor>x\<rfloor>; r = x - of_int f
      in if r < 1 / 2 then f
         else if 1 / 2 < r then f + 1
         else if even f then f else f + 1)"

definition roundDouble :: "real \<Rightarrow> real" where
  "roundDouble x =
     (if x = 0 then 0
      else
        (let e = max (- 1022) \<lfloor>log 2 \<bar>x\<bar>\<rfloor>;
             ulp = 2 powr (of_int e - 52)
         in of_int (roundHalfEven (x / ulp)) * ulp))"

subsection \<open>Data model\<close>

text \<open>
  The declarations of \<^verbatim>\<open>TimelineTrack\<close>, \<^verbatim>\<open>TimelineElement\<close> and \<^verbatim>\<open>MediaItem\<close>
  (types/timeline, types/project) are not part of the sources; the fields below are the ones
  the export service reads, and the string tags it compares against are constructors.
  An optional field is an \<open>option\<close>: \<open>None\<close> is \<^verbatim>\<open>undefined\<close>.
\<close>

datatype track_type = VideoTrack | AudioTrack | MediaTrack | TextTrack

datatype media_type = VideoItem | AudioItem | ImageItem

record media_item =
  mi_id :: string
  mi_type :: media_type
  mi_url :: "string option"
  mi_name :: string

record text_props =
  content :: "string option"
  fontSize :: "real option"
  fontFamily :: "string option"
  fontWeight :: "string option"
  fontStyle :: "string option"
  color :: "string option"
  backgroundColor :: "string option"
  textAlign :: "string option"

datatype element_kind = MediaEl (mediaId: string) | TextEl (props: text_props)

record element =
  el_name :: string
  startTime :: real
  duration :: real
  trimStart :: real
  trimEnd :: real
  el_x :: "real option"
  el_y :: "real option"
  rotation :: "real option"
  opacity :: "real option"
  kind :: element_kind

record track =
  tr_type :: track_type
  tr_order :: "real option"
  elements :: "element list"

text \<open>The settings store (stores/project-settings-store.ts).\<close>

datatype quality = Q480p | Q720p | Q1080p | Q1440p | Q2160p

record project_settings =
  fps :: real
  quality :: quality
  customBitrate :: real

text \<open>
  A canvas, and a preloaded media element: an \<^verbatim>\<open>HTMLImageElement\<close> or an
  \<^verbatim>\<open>HTMLVideoElement\<close> with its intrinsic size (\<^verbatim>\<open>naturalWidth\<close>/\<^verbatim>\<open>videoWidth\<close>,
  zero until the media has loaded), its duration (\<open>None\<close> is NaN) and its ready state.
\<close>

record canvas =
  c_width :: nat
  c_height :: nat

datatype handle_kind = ImageElement | VideoElement

record media_handle =
  h_kind :: handle_kind
  h_src :: "string option"
  h_width :: nat
  h_height :: nat
  h_duration :: "real option"
  h_readyState :: nat

record render_info =
  ri_x :: real
  ri_y :: real
  ri_width :: real
  ri_height :: real

text \<open>
  The canvas size of an export (\<^verbatim>\<open>qualityPresets\<close>, lines 244-254). Every value of the
  settings' \<^verbatim>\<open>quality\<close> type is a key of the table, so its fallback to 1080p is not reached.
\<close>

definition qualityPresets :: "quality \<Rightarrow> canvas" where
  "qualityPresets q =
     (case q of
        Q480p \<Rightarrow> \<lparr>c_width = 854, c_height = 480\<rparr>
      | Q720p \<Rightarrow> \<lparr>c_width = 1280, c_height = 720\<rparr>
      | Q1080p \<Rightarrow> \<lparr>c_width = 1920, c_height = 1080\<rparr>
      | Q1440p \<Rightarrow> \<lparr>c_width = 2560, c_height = 1440\<rparr>
      | Q2160p \<Rightarrow> \<lparr>c_width = 3840, c_height = 2160\<rparr>)"

subsection \<open>calculateRenderInfo (lines 926-965)\<close>

text \<open>
  \<^verbatim>\<open>canvas.width / canvas.height\<close> with a zero height is Infinity or NaN in the source, and the
  comparison \<^verbatim>\<open>mediaAspect > canvasAspect\<close> is then false: the guard \<open>c_height c \<noteq> 0\<close> writes
  that case out. The division \<^verbatim>\<open>mediaWidth / mediaHeight\<close> is only reached behind the zero test.
\<close>

definition calculateRenderInfo :: "media_handle \<Rightarrow> canvas \<Rightarrow> render_info" where
  "calculateRenderInfo mediaElement cv =
     (let mediaWidth = real (h_width mediaElement);
          mediaHeight = real (h_height mediaElement);
          cw = real (c_width cv);
          ch = real (c_height cv)
      in if mediaWidth = 0 \<or> mediaHeight = 0
         then \<lparr>ri_x = 0, ri_y = 0, ri_width = cw, ri_height = ch\<rparr>
         else
           (let mediaAspect = mediaWidth / mediaHeight;
                wider = (c_height cv \<noteq> 0 \<and> mediaAspect > cw / ch);
                renderWidth = (if wider then cw else ch * mediaAspect);
                renderHeight = (if wider then cw / mediaAspect else ch)
            in \<lparr>ri_x = (cw - renderWidth) / 2, ri_y = (ch - renderHeight) / 2,
                ri_width = renderWidth, ri_height = renderHeight\<rparr>))"

subsection \<open>JavaScript defaults\<close>

text \<open>
  \<^verbatim>\<open>v || d\<close>: the default \<open>d\<close> replaces every falsy \<open>v\<close>, that is an unset field, the
  number zero and the empty string.
\<close>

definition numOr :: "real option \<Rightarrow> real \<Rightarrow> real" where
  "numOr v d = (case v of None \<Rightarrow> d | Some n \<Rightarrow> if n = 0 then d else n)"

definition strOr :: "string option \<Rightarrow> string \<Rightarrow> string" where
  "strOr v d = (case v of None \<Rightarrow> d | Some s \<Rightarrow> if s = [] then d else s)"

subsection \<open>getActiveElementsAtTime (lines 725-757)\<close>

record active_element =
  ae_element :: element
  ae_track :: track
  ae_mediaItem :: "media_item option"

text \<open>
  The media item of an active element (lines 742-749), and the body of the inner
  \<^verbatim>\<open>forEach\<close>: one element of one track is pushed or not. The end of the window,
  \<^verbatim>\<open>element.startTime + (element.duration - element.trimStart - element.trimEnd)\<close>, is two
  subtractions and an addition, each rounded.
\<close>

definition lookupMediaItem :: "media_item list \<Rightarrow> element \<Rightarrow> media_item option" where
  "lookupMediaItem mediaItems el =
     (case kind el of
        MediaEl mid \<Rightarrow>
          if mid = ''test'' then None
          else find (\<lambda>item. mi_id item = mid) mediaItems
      | TextEl _ \<Rightarrow> None)"

definition pushIfActive ::
  "real \<Rightarrow> media_item list \<Rightarrow> track \<Rightarrow> element \<Rightarrow> active_element list \<Rightarrow> active_element list" where
  "pushIfActive currentTime mediaItems trk el activeElements =
     (let elementStart = startTime el;
          elementEnd =
            roundDouble (startTime el
              + roundDouble (roundDouble (duration el - trimStart el) - trimEnd el))
      in if currentTime \<ge> elementStart \<and> currentTime < elementEnd
         then
           (let mediaItem = lookupMediaItem mediaItems el
            in activeElements @ [\<lparr>ae_element = el, ae_track = trk, ae_mediaItem = mediaItem\<rparr>])
         else activeElements)"

definition getActiveElementsAtTime ::
  "real \<Rightarrow> track list \<Rightarrow> media_item list \<Rightarrow> active_element list" where
  "getActiveElementsAtTime currentTime tracks mediaItems =
     fold (\<lambda>trk acc. fold (pushIfActive currentTime mediaItems trk) (elements trk) acc) tracks []"

subsection \<open>Drawing operations\<close>

text \<open>
  What the renderer does to the canvas, in call order. A text element's calls (translate,
  rotate, the optional background box, \<^verbatim>\<open>strokeText\<close>, \<^verbatim>\<open>fillText\<close>) are one operation
  carrying the values the code computed for them; the placeholder panel with its two captions
  is one operation as well.
\<close>

record text_draw =
  td_content :: string
  td_x :: real
  td_y :: real
  td_rotation :: real
  td_fontSize :: real
  td_fontFamily :: string
  td_fontWeight :: string
  td_fontStyle :: string
  td_textAlign :: string
  td_alpha :: real
  td_background :: "string option"
  td_lineWidth :: real
  td_color :: string

datatype draw_op =
    FillBackground string nat nat
  | DrawPlaceholder string nat nat
  | SeekVideo string real
  | DrawImage string render_info real
  | DrawText text_draw

subsection \<open>renderTextElementSafe (lines 799-853)\<close>

text \<open>The font size computed at lines 816-818, and the calls made with it.\<close>

definition textFontSize :: "canvas \<Rightarrow> text_props \<Rightarrow> real" where
  "textFontSize cv p =
     (let baseFontSize = numOr (fontSize p) 48;
          fontScale = min (real (c_width cv) / 1920) (real (c_height cv) / 1080) * 2
      in max 32 (baseFontSize * fontScale))"

definition renderTextElementSafe :: "canvas \<Rightarrow> element \<Rightarrow> text_props \<Rightarrow> draw_op list" where
  "renderTextElementSafe cv el p =
     (let textContent = strOr (content p) (strOr (Some (el_name el)) ''Text'');
          x = real (c_width cv) * 0.5 + numOr (el_x el) 0;
          y = real (c_height cv) * 0.5 + numOr (el_y el) 0;
          size = textFontSize cv p;
          box = (case backgroundColor p of
                   None \<Rightarrow> None
                 | Some bg \<Rightarrow> if bg \<noteq> ''transparent'' \<and> bg \<noteq> [] then Some bg else None)
      in [DrawText
            \<lparr>td_content = textContent, td_x = x, td_y = y,
             td_rotation = numOr (rotation el) 0 * pi / 180,
             td_fontSize = size,
             td_fontFamily = strOr (fontFamily p) ''Arial, sans-serif'',
             td_fontWeight = strOr (fontWeight p) ''bold'',
             td_fontStyle = strOr (fontStyle p) ''normal'',
             td_textAlign = strOr (textAlign p) ''center'',
             td_alpha = (case opacity el of None \<Rightarrow> 1 | Some a \<Rightarrow> a),
             td_background = box,
             td_lineWidth = max 3 (size / 12),
             td_color = strOr (color p) ''#ffffff''\<rparr>])"

subsection \<open>renderMediaElementSafe (lines 855-924)\<close>

text \<open>
  The table of preloaded media is a JavaScript \<^verbatim>\<open>Map\<close> read with \<^verbatim>\<open>get\<close>: \<open>None\<close> is a
  missing key, \<open>Some None\<close> the value \<^verbatim>\<open>null\<close>.
\<close>

type_synonym media_elements = "string \<Rightarrow> media_handle option option"

definition renderMediaElementSafe ::
  "canvas \<Rightarrow> element \<Rightarrow> string \<Rightarrow> media_item option \<Rightarrow> real \<Rightarrow> media_elements \<Rightarrow> draw_op list" where
  "renderMediaElementSafe cv el mid mediaItem currentTime mediaElements =
     (case mediaItem of
        None \<Rightarrow> [DrawPlaceholder (el_name el) (c_width cv) (c_height cv)]
      | Some item \<Rightarrow>
          if mid = ''test'' then [DrawPlaceholder (el_name el) (c_width cv) (c_height cv)]
          else
          (case mediaElements (mi_id item) of
             None \<Rightarrow> []
           | Some None \<Rightarrow> []
           | Some (Some mediaElement) \<Rightarrow>
               (let elementTime = currentTime - startTime el;
                    adjustedTime = elementTime + trimStart el;
                    targetTime = min (max 0 adjustedTime) (numOr (h_duration mediaElement) 0);
                    seek = (if h_kind mediaElement = VideoElement
                               \<and> h_readyState mediaElement \<ge> 2 \<and> targetTime \<ge> 0
                            then [SeekVideo (mi_id item) targetTime] else [])
                in seek @
                   [DrawImage (mi_id item) (calculateRenderInfo mediaElement cv)
                      (case opacity el of None \<Rightarrow> 1 | Some a \<Rightarrow> a)])))"

subsection \<open>renderActiveElementsSafe (lines 759-797)\<close>

text \<open>
  \<^verbatim>\<open>[...activeElements].sort((a, b) => (a.track.order || 0) - (b.track.order || 0))\<close>:
  \<^verbatim>\<open>Array.prototype.sort\<close> is a stable sort, and the comparator is the difference of one key
  per element, so it is the library's stable insertion sort by that key.
\<close>

definition trackOrder :: "active_element \<Rightarrow> real" where
  "trackOrder a = numOr (tr_order (ae_track a)) 0"

definition sortedElements :: "active_element list \<Rightarrow> active_element list" where
  "sortedElements activeElements = sort_key trackOrder activeElements"

text \<open>The body of the loop over the sorted elements: the two \<^verbatim>\<open>if\<close>s on the element's type.\<close>

definition renderElement ::
  "canvas \<Rightarrow> real \<Rightarrow> media_elements \<Rightarrow> active_element \<Rightarrow> draw_op list" where
  "renderElement cv currentTime mediaElements a =
     (case kind (ae_element a) of
        MediaEl mid \<Rightarrow>
          renderMediaElementSafe cv (ae_element a) mid (ae_mediaItem a) currentTime mediaElements
      | TextEl p \<Rightarrow> renderTextElementSafe cv (ae_element a) p)"

text \<open>The loop's iterations in order, each with the element it draws and its operations.\<close>

definition renderActiveElementsSafe ::
  "canvas \<Rightarrow> active_element list \<Rightarrow> real \<Rightarrow> media_elements \<Rightarrow> (active_element \<times> draw_op list) list" where
  "renderActiveElementsSafe cv activeElements currentTime mediaElements =
     map (\<lambda>a. (a, renderElement cv currentTime mediaElements a)) (sortedElements activeElements)"

subsection \<open>Exceptions and promise outcomes\<close>

datatype error = Error string

datatype 'a outcome = Resolved 'a | Rejected error

subsection \<open>preloadAllMediaElementsSafe (lines 655-723)\<close>

text \<open>
  What the browser does with one media item is the environment's choice. Either the wait for
  the element ends, because the load event fired, the error event fired, or the 3 s (image)
  or 5 s (video) timer fired first, and the element then has some intrinsic size, duration
  and ready state (all zero or unset for an element that never loaded); or an exception is
  raised inside the \<^verbatim>\<open>try\<close> block.
\<close>

datatype load_event = LoadEvent | ErrorEvent | TimeoutEvent

datatype load_result = Waited load_event nat nat "real option" nat | Raises error

text \<open>
  The element created for an item, as it is once the wait is over. All three handlers of the
  wait call \<^verbatim>\<open>resolve()\<close>, so the code goes on with the element it created whichever event
  ended the wait.
\<close>

definition awaitLoad :: "handle_kind \<Rightarrow> media_item \<Rightarrow> load_result \<Rightarrow> media_handle outcome" where
  "awaitLoad k item r =
     (case r of
        Waited ev w h d rs \<Rightarrow>
          Resolved \<lparr>h_kind = k, h_src = mi_url item, h_width = w, h_height = h,
                    h_duration = d, h_readyState = rs\<rparr>
      | Raises e \<Rightarrow> Rejected e)"

text \<open>The \<^verbatim>\<open>try\<close> block of the loop body: the value of \<^verbatim>\<open>mediaElement\<close> at the \<^verbatim>\<open>set\<close> call.\<close>

definition loadMediaElement ::
  "(media_item \<Rightarrow> load_result) \<Rightarrow> media_item \<Rightarrow> media_handle option outcome" where
  "loadMediaElement load item =
     (case mi_type item of
        ImageItem \<Rightarrow>
          (case awaitLoad ImageElement item (load item) of
             Resolved h \<Rightarrow> Resolved (Some h) | Rejected e \<Rightarrow> Rejected e)
      | VideoItem \<Rightarrow>
          (case awaitLoad VideoElement item (load item) of
             Resolved h \<Rightarrow> Resolved (Some h) | Rejected e \<Rightarrow> Rejected e)
      | AudioItem \<Rightarrow> Resolved None)"

text \<open>The loop over the media items with its \<^verbatim>\<open>try\<close>/\<^verbatim>\<open>catch\<close>, on the map built so far.\<close>

fun preloadLoop ::
  "(media_item \<Rightarrow> load_result) \<Rightarrow> media_item list \<Rightarrow> media_elements \<Rightarrow> media_elements" where
  "preloadLoop load [] mediaElements = mediaElements"
| "preloadLoop load (item # rest) mediaElements =
     preloadLoop load rest
       (case loadMediaElement load item of
          Resolved mediaElement \<Rightarrow> mediaElements(mi_id item \<mapsto> mediaElement)
        | Rejected e \<Rightarrow> mediaElements(mi_id item \<mapsto> None))"

definition preloadAllMediaElementsSafe ::
  "(media_item \<Rightarrow> load_result) \<Rightarrow> media_item list \<Rightarrow> media_elements outcome" where
  "preloadAllMediaElementsSafe load mediaItems = Resolved (preloadLoop load mediaItems Map.empty)"

subsection \<open>renderVideoContentSafe (lines 544-614)\<close>

record frame =
  fr_index :: nat
  fr_time :: real
  fr_ops :: "draw_op list"

text \<open>
  The closure \<^verbatim>\<open>renderFrame\<close> up to its increment of \<^verbatim>\<open>currentFrame\<close>: the background
  fill, then the active elements at \<^verbatim>\<open>currentFrame * frameTime\<close>. \<open>bg\<close> is
  \<^verbatim>\<open>activeProject?.backgroundColor\<close>.
\<close>

definition renderFrame ::
  "canvas \<Rightarrow> string option \<Rightarrow> real \<Rightarrow> track list \<Rightarrow> media_item list \<Rightarrow> media_elements \<Rightarrow> nat \<Rightarrow> frame" where
  "renderFrame cv bg frameTime tracks mediaItems mediaElements currentFrame =
     (let backgroundColor = strOr bg ''#000000'';
          currentTime = roundDouble (real currentFrame * frameTime);
          activeElements = getActiveElementsAtTime currentTime tracks mediaItems
      in \<lparr>fr_index = currentFrame, fr_time = currentTime,
          fr_ops = FillBackground backgroundColor (c_width cv) (c_height cv)
                   # concat (map snd
                       (renderActiveElementsSafe cv activeElements currentTime mediaElements))\<rparr>)"





subsection \<open>findAudioSources and createSafeAudioStream (lines 366-458)\<close>

datatype source_type = AudioSource | VideoSource

record audio_source =
  as_type :: source_type
  as_element :: element
  as_mediaItem :: media_item

definition truthyUrl :: "media_item \<Rightarrow> bool" where
  "truthyUrl item = (case mi_url item of None \<Rightarrow> False | Some u \<Rightarrow> u \<noteq> [])"

text \<open>The body of the inner loop: what one element of one track adds to \<^verbatim>\<open>audioSources\<close>.\<close>

definition elementAudioSources :: "media_item list \<Rightarrow> track \<Rightarrow> element \<Rightarrow> audio_source list" where
  "elementAudioSources mediaItems trk el =
     (case kind el of
        TextEl _ \<Rightarrow> []
      | MediaEl mid \<Rightarrow>
          (if tr_type trk = AudioTrack
           then (case find (\<lambda>item. mi_id item = mid) mediaItems of
                   None \<Rightarrow> []
                 | Some audioItem \<Rightarrow>
                     if mi_type audioItem = AudioItem \<and> truthyUrl audioItem
                     then [\<lparr>as_type = AudioSource, as_element = el, as_mediaItem = audioItem\<rparr>]
                     else [])
           else [])
          @
          (if tr_type trk = MediaTrack
           then (case find (\<lambda>item. mi_id item = mid) mediaItems of
                   None \<Rightarrow> []
                 | Some mediaItem \<Rightarrow>
                     if mi_type mediaItem = VideoItem \<and> truthyUrl mediaItem
                     then [\<lparr>as_type = VideoSource, as_element = el, as_mediaItem = mediaItem\<rparr>]
                     else [])
           else []))"

definition findAudioSources :: "track list \<Rightarrow> media_item list \<Rightarrow> audio_source list" where
  "findAudioSources tracks mediaItems =
     fold (\<lambda>trk acc. fold (\<lambda>el acc'. acc' @ elementAudioSources mediaItems trk el) (elements trk) acc)
       tracks []"

text \<open>
  The audio environment: whether \<^verbatim>\<open>new AudioContext()\<close> succeeds, whether the destination
  and gain nodes can be created, and which sources \<^verbatim>\<open>connectAudioSourceSafe\<close> connects
  (the others reject: load error, 5 s timeout, connect error).
\<close>

record audio_env =
  contextAvailable :: bool
  graphAvailable :: bool
  connects :: "audio_source \<Rightarrow> bool"

datatype media_stream = MixedStream "audio_source list"

definition createSafeAudioStream ::
  "track list \<Rightarrow> media_item list \<Rightarrow> audio_env \<Rightarrow> media_stream option" where
  "createSafeAudioStream tracks mediaItems env =
     (let audioSources = findAudioSources tracks mediaItems
      in if length audioSources = 0 then None
         else if \<not> graphAvailable env then None
         else
           (let connected = filter (connects env) audioSources
            in if length connected = 0 then None else Some (MixedStream connected)))"

subsection \<open>The recorder set-up of createRealVideoFile (lines 258-301)\<close>

record recorder_options =
  mimeType :: string
  videoBitsPerSecond :: real
  audioBitsPerSecond :: "real option"

definition hasAudio :: "track list \<Rightarrow> media_item list \<Rightarrow> audio_env \<Rightarrow> bool" where
  "hasAudio tracks mediaItems env =
     (if contextAvailable env
      then (case createSafeAudioStream tracks mediaItems env of None \<Rightarrow> False | Some s \<Rightarrow> True)
      else False)"

definition mediaRecorderOptions ::
  "project_settings \<Rightarrow> track list \<Rightarrow> media_item list \<Rightarrow> audio_env \<Rightarrow> recorder_options" where
  "mediaRecorderOptions settings tracks mediaItems env =
     (let withAudio = hasAudio tracks mediaItems env
      in \<lparr>mimeType = (if withAudio then ''video/webm;codecs=vp8,opus'' else ''video/webm;codecs=vp8''),
          videoBitsPerSecond = customBitrate settings * 1000,
          audioBitsPerSecond = (if withAudio then Some 128000 else None)\<rparr>)"

subsection \<open>exportVideo and its fallback tiers (lines 133-168, 215-364, 1125-1170)\<close>

text \<open>
  What the user sees of an export: the toasts and the files handed to the browser for
  download. File names replace every character outside \<^verbatim>\<open>[a-zA-Z0-9]\<close> by an underscore.
\<close>

datatype artifact = WebmVideo | PngImage | TextReport

datatype event =
    ToastInfo string
  | ToastWarning string
  | ToastSuccess string
  | Download string artifact

definition alphanumeric :: "char \<Rightarrow> bool" where
  "alphanumeric c =
     (let n = (of_char c :: nat)
      in (48 \<le> n \<and> n \<le> 57) \<or> (65 \<le> n \<and> n \<le> 90) \<or> (97 \<le> n \<and> n \<le> 122))"

definition sanitizeName :: "string \<Rightarrow> string" where
  "sanitizeName projectName = map (\<lambda>c. if alphanumeric c then c else CHR ''_'') projectName"

definition downloadVideoFile :: "string \<Rightarrow> artifact \<Rightarrow> string \<Rightarrow> event" where
  "downloadVideoFile projectName blob extension =
     Download (sanitizeName projectName @ ''.'' @ extension) blob"

text \<open>
  The environment of one export: whether a 2D context is available, how the live-capture
  attempt (lines 259-336) and the single-frame attempt (lines 341-352) end, whether
  \<^verbatim>\<open>createRealVideoFile\<close> settles before the 15 s timer of the race, and how the DOM calls
  of the emergency tier end.
\<close>

record export_env =
  canvasAvailable :: bool
  primaryAttempt :: "unit outcome"
  secondaryAttempt :: "unit outcome"
  settlesBeforeTimeout :: bool
  emergencyDom :: "unit outcome"

record export_options =
  projectName :: string
  exportDuration :: real
  exportSettings :: project_settings
  exportTracks :: "track list"
  exportMediaItems :: "media_item list"

definition simulateProgressUpdates :: "event list" where
  "simulateProgressUpdates =
     map ToastInfo
       [''Analyzing timeline content...'', ''Processing video tracks...'',
        ''Rendering video frames...'', ''Encoding video...'', ''Finalizing export...'']"

definition createRealVideoFile :: "string \<Rightarrow> export_env \<Rightarrow> event list \<times> unit outcome" where
  "createRealVideoFile name env =
     (if \<not> canvasAvailable env then ([], Rejected (Error ''Canvas not available''))
      else
        (case primaryAttempt env of
           Resolved u \<Rightarrow> ([downloadVideoFile name WebmVideo ''webm''], Resolved ())
         | Rejected primaryError \<Rightarrow>
             (case secondaryAttempt env of
                Resolved u \<Rightarrow> ([downloadVideoFile name PngImage ''png''], Resolved ())
              | Rejected secondaryError \<Rightarrow> ([], Rejected secondaryError))))"

definition createEmergencyFallback :: "string \<Rightarrow> export_env \<Rightarrow> event list \<times> unit outcome" where
  "createEmergencyFallback name env =
     (case emergencyDom env of
        Resolved u \<Rightarrow> ([Download (sanitizeName name @ ''_export_failed.txt'') TextReport], Resolved ())
      | Rejected e \<Rightarrow> ([], Rejected e))"

text \<open>
  \<^verbatim>\<open>Promise.race([exportPromise, timeoutPromise])\<close>: the first promise to settle decides. When
  the timer wins, what the pending full render still does later is not part of the trace.
\<close>

definition raceWithTimeout :: "export_env \<Rightarrow> event list \<times> unit outcome \<Rightarrow> event list \<times> unit outcome" where
  "raceWithTimeout env exportPromise =
     (if settlesBeforeTimeout env then exportPromise
      else ([], Rejected (Error ''Export timeout after 15 seconds'')))"

definition exportVideo :: "export_options \<Rightarrow> export_env \<Rightarrow> event list \<times> unit outcome" where
  "exportVideo options env =
     (let started = ToastInfo ''Processing video export...'' # simulateProgressUpdates;
          raced = raceWithTimeout env (createRealVideoFile (projectName options) env)
      in case snd raced of
           Resolved u \<Rightarrow>
             (started @ fst raced @ [ToastSuccess ''Video exported successfully!''], Resolved ())
         | Rejected error \<Rightarrow>
             (let warned = started @ fst raced
                    @ [ToastWarning ''Video export encountered issues, creating backup export...''];
                  emergency = createEmergencyFallback (projectName options) env
              in case snd emergency of
                   Resolved u \<Rightarrow>
                     (warned @ fst emergency
                        @ [ToastSuccess ''Backup export completed successfully!''], Resolved ())
                 | Rejected e \<Rightarrow> (warned @ fst emergency, Rejected e)))"

subsection \<open>Example timeline\<close>

definition titleProps :: text_props where
  "titleProps =
     \<lparr>content = Some ''Title'', fontSize = Some 48, fontFamily = None, fontWeight = None,
      fontStyle = None, color = None, backgroundColor = None, textAlign = None\<rparr>"

definition titleElement :: element where
  "titleElement =
     \<lparr>el_name = ''Title'', startTime = 0, duration = 5, trimStart = 0, trimEnd = 0,
      el_x = None, el_y = None, rotation = None, opacity = None, kind = TextEl titleProps\<rparr>"

definition clipElement :: element where
  "clipElement =
     \<lparr>el_name = ''Clip'', startTime = 0, duration = 5, trimStart = 0, trimEnd = 0,
      el_x = None, el_y = None, rotation = None, opacity = None, kind = MediaEl ''m1''\<rparr>"

text \<open>A clip trimmed down to nothing: its duration minus both trims is zero.\<close>

definition trimmedElement :: element where
  "trimmedElement =
     \<lparr>el_name = ''Trimmed'', startTime = 0, duration = 5, trimStart = 3, trimEnd = 2,
      el_x = None, el_y = None, rotation = None, opacity = None, kind = MediaEl ''m1''\<rparr>"

definition clipItem :: media_item where
  "clipItem = \<lparr>mi_id = ''m1'', mi_type = ImageItem, mi_url = Some ''blob:m1'', mi_name = ''clip.png''\<rparr>"

definition songItem :: media_item where
  "songItem = \<lparr>mi_id = ''a1'', mi_type = AudioItem, mi_url = Some ''blob:a1'', mi_name = ''song.mp3''\<rparr>"

definition textTrack :: track where
  "textTrack = \<lparr>tr_type = TextTrack, tr_order = None, elements = [titleElement]\<rparr>"

definition mediaTrack :: track where
  "mediaTrack = \<lparr>tr_type = MediaTrack, tr_order = None, elements = [clipElement]\<rparr>"

definition trimmedTrack :: track where
  "trimmedTrack = \<lparr>tr_type = MediaTrack, tr_order = None, elements = [trimmedElement]\<rparr>"

definition hd1080 :: canvas where
  "hd1080 = \<lparr>c_width = 1920, c_height = 1080\<rparr>"

definition defaultSettings :: project_settings where
  "defaultSettings = \<lparr>fps = 30, quality = Q1080p, customBitrate = 5000\<rparr>"

text \<open>Three active elements on tracks of order 2, unset and 0.\<close>

definition layeredElements :: "active_element list" where
  "layeredElements =
     [\<lparr>ae_element = clipElement, ae_track = mediaTrack\<lparr>tr_order := Some 2\<rparr>, ae_mediaItem = Some clipItem\<rparr>,
      \<lparr>ae_element = titleElement, ae_track = textTrack, ae_mediaItem = None\<rparr>,
      \<lparr>ae_element = trimmedElement, ae_track = trimmedTrack\<lparr>tr_order := Some 0\<rparr>,
       ae_mediaItem = Some clipItem\<rparr>]"

text \<open>
  A one-second clip with 0.2 s trimmed off either end, the trims being the doubles nearest
  to 0.2, on a track of its own.
\<close>

definition shortElement :: element where
  "shortElement =
     \<lparr>el_name = ''Short'', startTime = 0, duration = 1,
      trimStart = roundDouble (1 / 5), trimEnd = roundDouble (1 / 5),
      el_x = None, el_y = None, rotation = None, opacity = None, kind = MediaEl ''m1''\<rparr>"

definition shortTrack :: track where
  "shortTrack = \<lparr>tr_type = MediaTrack, tr_order = None, elements = [shortElement]\<rparr>"




text \<open>A media table in which the clip's image has loaded, 1280 by 720 pixels.\<close>

definition clipTable :: media_elements where
  "clipTable =
     Map.empty(''m1'' \<mapsto> Some \<lparr>h_kind = ImageElement, h_src = Some ''blob:m1'', h_width = 1280,
                                 h_height = 720, h_duration = None, h_readyState = 0\<rparr>)"

section \<open>Properties\<close>

subsection \<open>Double-precision arithmetic\<close>

lemma floor_log2_binade:
  assumes "2 powr (of_int k) \<le> \<bar>x\<bar>" and "\<bar>x\<bar> < 2 powr (of_int k + 1)"
  shows "\<lfloor>log 2 \<bar>x\<bar>\<rfloor> = k"
proof (rule floor_unique)
  have pos: "0 < \<bar>x\<bar>"
    using assms(1) by (smt (verit) powr_gt_zero)
  show "of_int k \<le> log 2 \<bar>x\<bar>"
    using assms(1) pos by (simp add: le_log_iff)
  show "log 2 \<bar>x\<bar> < of_int k + 1"
    using assms(2) pos by (simp add: log_less_iff)
qed

text \<open>
  The rounding of a number in the binade \<open>[2 ^ k, 2 ^ (k + 1))\<close>: the nearest multiple of
  \<open>2 ^ (k - 52)\<close>. It is how the rounding of a concrete number is computed below.
\<close>

lemma roundDouble_binade:
  assumes "- 1022 \<le> k" and "2 powr (of_int k) \<le> \<bar>x\<bar>" and "\<bar>x\<bar> < 2 powr (of_int k + 1)"
  shows "roundDouble x
           = of_int (roundHalfEven (x / 2 powr (of_int k - 52))) * 2 powr (of_int k - 52)"
proof -
  have "x \<noteq> 0"
    using assms(2) by (smt (verit) powr_gt_zero)
  moreover have "\<lfloor>log 2 \<bar>x\<bar>\<rfloor> = k"
    using assms(2,3) by (rule floor_log2_binade)
  ultimately show ?thesis
    using assms(1) by (simp add: roundDouble_def Let_def max_def)
qed

lemma roundDouble_0 [simp]: "roundDouble 0 = 0"
  by (simp add: roundDouble_def)

text \<open>Integers below \<open>2 ^ 53\<close> in absolute value are doubles: rounding leaves them as they are.\<close>

lemma roundHalfEven_of_int [simp]: "roundHalfEven (of_int j) = j"
  by (simp add: roundHalfEven_def)

lemma roundDouble_of_int:
  assumes "\<bar>n\<bar> < 2 ^ 53"
  shows "roundDouble (of_int n) = of_int n"
proof (cases "n = 0")
  case True
  then show ?thesis by simp
next
  case False
  define a :: real where "a = \<bar>of_int n\<bar>"
  define k where "k = \<lfloor>log 2 a\<rfloor>"
  have a1: "1 \<le> a"
    using False by (simp add: a_def)
  have a2: "a < 2 ^ 53"
  proof -
    have "a = of_int \<bar>n\<bar>" by (simp add: a_def)
    also have "\<dots> < of_int (2 ^ 53)" using assms by (simp only: of_int_less_iff)
    finally show ?thesis by simp
  qed
  have "0 \<le> log 2 a"
    using a1 by simp
  then have k0: "0 \<le> k"
    by (simp add: k_def)
  have "log 2 a < 53"
    using a1 a2 by (simp add: log_less_iff)
  then have k52: "k \<le> 52"
    unfolding k_def by (simp add: floor_le_iff)
  define j where "j = nat (52 - k)"
  have ulp: "2 powr (of_int k - 52) = inverse ((2::real) ^ j)"
  proof -
    have "of_int k - (52::real) = - real j"
      using k52 by (simp add: j_def)
    then show ?thesis
      by (simp add: powr_minus powr_realpow)
  qed
  have q: "of_int n / (2 powr (of_int k - 52)) = (of_int (n * 2 ^ j) :: real)"
    by (simp add: ulp divide_inverse)
  have nz: "(of_int n :: real) \<noteq> 0"
    using False by simp
  have mx: "max (- 1022) k = k"
    using k0 by simp
  have "roundDouble (of_int n)
      = of_int (roundHalfEven (of_int n / 2 powr (of_int (max (- 1022) k) - 52)))
          * 2 powr (of_int (max (- 1022) k) - 52)"
    unfolding roundDouble_def Let_def k_def a_def using nz by (simp only: if_False)
  also have "\<dots>
      = of_int (roundHalfEven (of_int n / 2 powr (of_int k - 52))) * 2 powr (of_int k - 52)"
    by (simp only: mx)
  also have "\<dots> = of_int (n * 2 ^ j) * 2 powr (of_int k - 52)"
    by (simp only: q roundHalfEven_of_int)
  also have "\<dots> = of_int (n * 2 ^ j) * inverse ((2::real) ^ j)"
    by (simp only: ulp)
  also have "\<dots> = of_int n"
    by simp
  finally show ?thesis .
qed

lemma roundDouble_numeral [simp]:
  "numeral w < (2 :: int) ^ 53 \<Longrightarrow> roundDouble (numeral w) = numeral w"
  using roundDouble_of_int [of "numeral w"] by simp

lemma roundDouble_1 [simp]: "roundDouble 1 = 1"
  using roundDouble_of_int [of 1] by simp

subsection \<open>Aspect-fit rectangle\<close>

text \<open>
  C10. A media handle whose intrinsic width or height is zero gets the full-canvas rectangle
  \<open>{x = 0, y = 0, width = canvas.width, height = canvas.height}\<close>, whatever the canvas: the
  aspect-ratio division is not performed for it.
\<close>

theorem calculateRenderInfo_zero_dimension:
  "h_width m = 0 \<or> h_height m = 0 \<Longrightarrow>
   calculateRenderInfo m cv =
     \<lparr>ri_x = 0, ri_y = 0, ri_width = real (c_width cv), ri_height = real (c_height cv)\<rparr>"
  by (auto simp: calculateRenderInfo_def)

theorem calculateRenderInfo_zero_dimension_witness:
  "(h_width \<lparr>h_kind = ImageElement, h_src = Some ''blob:a'', h_width = 0, h_height = 720,
             h_duration = None, h_readyState = 0\<rparr> = 0
    \<or> h_height \<lparr>h_kind = ImageElement, h_src = Some ''blob:a'', h_width = 0, h_height = 720,
             h_duration = None, h_readyState = 0\<rparr> = 0)
   \<and> calculateRenderInfo
        \<lparr>h_kind = ImageElement, h_src = Some ''blob:a'', h_width = 0, h_height = 720,
         h_duration = None, h_readyState = 0\<rparr>
        \<lparr>c_width = 1920, c_height = 1080\<rparr>
      = \<lparr>ri_x = 0, ri_y = 0, ri_width = 1920, ri_height = 1080\<rparr>"
  using calculateRenderInfo_zero_dimension
    [of "\<lparr>h_kind = ImageElement, h_src = Some ''blob:a'', h_width = 0, h_height = 720,
          h_duration = None, h_readyState = 0\<rparr>" "\<lparr>c_width = 1920, c_height = 1080\<rparr>"]
  by simp

text \<open>X3. The canvas of an export has a positive width and height, whatever the quality.\<close>

lemma qualityPresets_positive:
  "0 < c_width (qualityPresets q) \<and> 0 < c_height (qualityPresets q)"
  by (cases q) (simp_all add: qualityPresets_def)

text \<open>
  C6. For media of intrinsic size \<open>(w, h)\<close> with \<open>w, h > 0\<close> on a canvas of positive size
  \<open>(W, H)\<close>, the rectangle keeps the aspect ratio, fits inside the canvas and is centred on
  both axes.
\<close>

theorem calculateRenderInfo_aspect_fit:
  assumes "0 < h_width m" and "0 < h_height m" and "0 < c_width cv" and "0 < c_height cv"
  shows "ri_width (calculateRenderInfo m cv) / ri_height (calculateRenderInfo m cv)
           = real (h_width m) / real (h_height m)
       \<and> 0 < ri_height (calculateRenderInfo m cv)
       \<and> ri_width (calculateRenderInfo m cv) \<le> real (c_width cv)
       \<and> ri_height (calculateRenderInfo m cv) \<le> real (c_height cv)
       \<and> ri_x (calculateRenderInfo m cv)
           = (real (c_width cv) - ri_width (calculateRenderInfo m cv)) / 2
       \<and> ri_y (calculateRenderInfo m cv)
           = (real (c_height cv) - ri_height (calculateRenderInfo m cv)) / 2"
proof -
  define w h W H where "w = real (h_width m)" and "h = real (h_height m)"
    and "W = real (c_width cv)" and "H = real (c_height cv)"
  have pos: "0 < w" "0 < h" "0 < W" "0 < H"
    using assms by (simp_all add: w_def h_def W_def H_def)
  show ?thesis
  proof (cases "w / h > W / H")
    case True
    then have r: "calculateRenderInfo m cv =
        \<lparr>ri_x = (W - W) / 2, ri_y = (H - W / (w / h)) / 2, ri_width = W, ri_height = W / (w / h)\<rparr>"
      using pos assms by (simp add: calculateRenderInfo_def Let_def w_def h_def W_def H_def)
    from True pos have "W * h < w * H"
      by (simp add: field_simps)
    then have le: "W / (w / h) \<le> H"
      using pos by (simp add: field_simps)
    have ratio: "W / (W / (w / h)) = w / h"
      using pos by (simp add: field_simps)
    have hpos: "0 < W / (w / h)"
      using pos by simp
    show ?thesis
      unfolding r using le ratio hpos
      by (simp add: w_def [symmetric] h_def [symmetric] W_def [symmetric] H_def [symmetric])
  next
    case False
    then have r: "calculateRenderInfo m cv =
        \<lparr>ri_x = (W - H * (w / h)) / 2, ri_y = (H - H) / 2, ri_width = H * (w / h), ri_height = H\<rparr>"
      using pos assms by (simp add: calculateRenderInfo_def Let_def w_def h_def W_def H_def)
    from False pos have "w * H \<le> W * h"
      by (simp add: field_simps)
    then have le: "H * (w / h) \<le> W"
      using pos by (simp add: field_simps)
    have ratio: "H * (w / h) / H = w / h"
      using pos by simp
    show ?thesis
      unfolding r using le ratio pos
      by (simp add: w_def [symmetric] h_def [symmetric] W_def [symmetric] H_def [symmetric])
  qed
qed

theorem calculateRenderInfo_aspect_fit_witness:
  "calculateRenderInfo
     \<lparr>h_kind = VideoElement, h_src = Some ''blob:v'', h_width = 1280, h_height = 720,
      h_duration = Some 5, h_readyState = 4\<rparr>
     (qualityPresets Q480p)
   = \<lparr>ri_x = 1 / 3, ri_y = 0, ri_width = 2560 / 3, ri_height = 480\<rparr>
   \<and> (2560 / 3) / 480 = (1280 :: real) / 720"
  using calculateRenderInfo_aspect_fit
    [of "\<lparr>h_kind = VideoElement, h_src = Some ''blob:v'', h_width = 1280, h_height = 720,
          h_duration = Some 5, h_readyState = 4\<rparr>" "qualityPresets Q480p"]
  by (simp add: calculateRenderInfo_def qualityPresets_def Let_def)

subsection \<open>Active window\<close>

lemma fold_pushIfActive:
  "fold (pushIfActive t items trk) els acc =
     acc @ map (\<lambda>el. \<lparr>ae_element = el, ae_track = trk, ae_mediaItem = lookupMediaItem items el\<rparr>)
            (filter (\<lambda>el. startTime el \<le> t
                        \<and> t < roundDouble (startTime el
                                  + roundDouble (roundDouble (duration el - trimStart el) - trimEnd el)))
               els)"
  by (induction els arbitrary: acc) (simp_all add: pushIfActive_def Let_def)

lemma fold_tracks_active:
  "fold (\<lambda>trk acc. fold (pushIfActive t items trk) (elements trk) acc) tracks acc0 =
     acc0 @ concat (map (\<lambda>trk.
        map (\<lambda>el. \<lparr>ae_element = el, ae_track = trk, ae_mediaItem = lookupMediaItem items el\<rparr>)
            (filter (\<lambda>el. startTime el \<le> t
                        \<and> t < roundDouble (startTime el
                                  + roundDouble (roundDouble (duration el - trimStart el) - trimEnd el)))
               (elements trk))) tracks)"
  by (induction tracks arbitrary: acc0) (simp_all add: fold_pushIfActive)

text \<open>The two nested loops with their \<^verbatim>\<open>push\<close>, as one expression.\<close>

lemma getActiveElementsAtTime_concat:
  "getActiveElementsAtTime t tracks items =
     concat (map (\<lambda>trk.
        map (\<lambda>el. \<lparr>ae_element = el, ae_track = trk, ae_mediaItem = lookupMediaItem items el\<rparr>)
            (filter (\<lambda>el. startTime el \<le> t
                        \<and> t < roundDouble (startTime el
                                  + roundDouble (roundDouble (duration el - trimStart el) - trimEnd el)))
               (elements trk))) tracks)"
  by (simp add: getActiveElementsAtTime_def fold_tracks_active)

text \<open>
  C1 (as the code has it). For every timestamp \<open>t\<close>, every track and every element on it,
  the element is among the active elements at \<open>t\<close> if and only if
  \<open>startTime \<le> t < elementEnd\<close>, where \<open>elementEnd\<close> is the double the code computes for
  \<open>startTime + (duration - trimStart - trimEnd)\<close>, rounding after each of the three
  operations; when none of them rounds, that is the exact sum. The window is half open, so
  \<open>t = elementEnd\<close> is excluded; no minimum length is applied to it.
\<close>

theorem getActiveElementsAtTime_window:
  assumes "trk \<in> set tracks" and "el \<in> set (elements trk)"
  shows "((\<lparr>ae_element = el, ae_track = trk, ae_mediaItem = lookupMediaItem items el\<rparr>
            \<in> set (getActiveElementsAtTime t tracks items))
          = (startTime el \<le> t
             \<and> t < roundDouble (startTime el
                       + roundDouble (roundDouble (duration el - trimStart el) - trimEnd el))))
       \<and> (roundDouble (duration el - trimStart el) = duration el - trimStart el
          \<and> roundDouble (duration el - trimStart el - trimEnd el) = duration el - trimStart el - trimEnd el
          \<and> roundDouble (startTime el + (duration el - trimStart el - trimEnd el))
              = startTime el + (duration el - trimStart el - trimEnd el)
          \<longrightarrow> (\<lparr>ae_element = el, ae_track = trk, ae_mediaItem = lookupMediaItem items el\<rparr>
                 \<in> set (getActiveElementsAtTime t tracks items))
              = (startTime el \<le> t \<and> t < startTime el + (duration el - trimStart el - trimEnd el)))"
proof -
  have w: "(\<lparr>ae_element = el, ae_track = trk, ae_mediaItem = lookupMediaItem items el\<rparr>
            \<in> set (getActiveElementsAtTime t tracks items))
          = (startTime el \<le> t
             \<and> t < roundDouble (startTime el
                       + roundDouble (roundDouble (duration el - trimStart el) - trimEnd el)))"
    using assms by (auto simp: getActiveElementsAtTime_concat)
  show ?thesis
  proof (intro conjI impI)
    show "(\<lparr>ae_element = el, ae_track = trk, ae_mediaItem = lookupMediaItem items el\<rparr>
            \<in> set (getActiveElementsAtTime t tracks items))
          = (startTime el \<le> t
             \<and> t < roundDouble (startTime el
                       + roundDouble (roundDouble (duration el - trimStart el) - trimEnd el)))"
      by (rule w)
  next
    assume "roundDouble (duration el - trimStart el) = duration el - trimStart el
          \<and> roundDouble (duration el - trimStart el - trimEnd el) = duration el - trimStart el - trimEnd el
          \<and> roundDouble (startTime el + (duration el - trimStart el - trimEnd el))
              = startTime el + (duration el - trimStart el - trimEnd el)"
    then show "(\<lparr>ae_element = el, ae_track = trk, ae_mediaItem = lookupMediaItem items el\<rparr>
                 \<in> set (getActiveElementsAtTime t tracks items))
              = (startTime el \<le> t \<and> t < startTime el + (duration el - trimStart el - trimEnd el))"
      by (simp only: w)
  qed
qed

text \<open>
  The one-second clip with 0.2 s trimmed off either end, at 30 frames per second. Its window
  ends at the double \<open>0.6000000000000001\<close>, the time of frame 18 is the double just below,
  \<open>0.6\<close>: the clip is active in frame 18, and no longer at the end of its window.
\<close>

lemma round_fifth: "roundDouble (1 / 5) = 3602879701896397 / 18014398509481984"
  using roundDouble_binade [of "-3" "1 / 5"]
  by (simp add: roundHalfEven_def powr_minus)

lemma round_four_fifths:
  "roundDouble (1 - 3602879701896397 / 18014398509481984) = 3602879701896397 / 4503599627370496"
  using roundDouble_binade [of "-1" "1 - 3602879701896397 / 18014398509481984"]
  by (simp add: roundHalfEven_def powr_minus)

lemma round_three_fifths:
  "roundDouble (3602879701896397 / 4503599627370496 - 3602879701896397 / 18014398509481984)
     = 5404319552844596 / 9007199254740992"
  using roundDouble_binade
    [of "-1" "3602879701896397 / 4503599627370496 - 3602879701896397 / 18014398509481984"]
  by (simp add: roundHalfEven_def powr_minus)

lemma round_window_end:
  "roundDouble (5404319552844596 / 9007199254740992) = 5404319552844596 / 9007199254740992"
  using roundDouble_binade [of "-1" "5404319552844596 / 9007199254740992"]
  by (simp add: roundHalfEven_def powr_minus)

lemma round_frame_time: "roundDouble (1 / 30) = 4803839602528529 / 144115188075855872"
  using roundDouble_binade [of "-5" "1 / 30"]
  by (simp add: roundHalfEven_def powr_minus)

lemma round_frame_18:
  "roundDouble (18 * (4803839602528529 / 144115188075855872)) = 5404319552844595 / 9007199254740992"
  using roundDouble_binade [of "-1" "18 * (4803839602528529 / 144115188075855872)"]
  by (simp add: roundHalfEven_def powr_minus)

theorem getActiveElementsAtTime_window_witness:
  "roundDouble (18 * roundDouble (1 / 30)) = 5404319552844595 / 9007199254740992
   \<and> roundDouble (startTime shortElement
        + roundDouble (roundDouble (duration shortElement - trimStart shortElement) - trimEnd shortElement))
      = 5404319552844596 / 9007199254740992
   \<and> (\<lparr>ae_element = shortElement, ae_track = shortTrack,
        ae_mediaItem = lookupMediaItem [clipItem] shortElement\<rparr>
        \<in> set (getActiveElementsAtTime (roundDouble (18 * roundDouble (1 / 30))) [shortTrack] [clipItem]))
   \<and> (\<lparr>ae_element = shortElement, ae_track = shortTrack,
        ae_mediaItem = lookupMediaItem [clipItem] shortElement\<rparr>
        \<notin> set (getActiveElementsAtTime (5404319552844596 / 9007199254740992) [shortTrack] [clipItem]))"
proof -
  have f: "startTime shortElement = 0" "duration shortElement = 1"
    "trimStart shortElement = roundDouble (1 / 5)" "trimEnd shortElement = roundDouble (1 / 5)"
    by (simp_all add: shortElement_def)
  have t: "roundDouble (18 * roundDouble (1 / 30)) = 5404319552844595 / 9007199254740992"
    by (simp only: round_frame_time round_frame_18)
  have e: "roundDouble (startTime shortElement
        + roundDouble (roundDouble (duration shortElement - trimStart shortElement) - trimEnd shortElement))
      = 5404319552844596 / 9007199254740992"
    by (simp only: f round_fifth round_four_fifths round_three_fifths add_0 round_window_end)
  have p1: "shortTrack \<in> set [shortTrack]"
    by simp
  have p2: "shortElement \<in> set (elements shortTrack)"
    by (simp add: shortTrack_def)
  have inside: "\<lparr>ae_element = shortElement, ae_track = shortTrack,
        ae_mediaItem = lookupMediaItem [clipItem] shortElement\<rparr>
        \<in> set (getActiveElementsAtTime (roundDouble (18 * roundDouble (1 / 30))) [shortTrack] [clipItem])"
    using getActiveElementsAtTime_window
      [OF p1 p2, of "[clipItem]" "roundDouble (18 * roundDouble (1 / 30))", THEN conjunct1]
    by (simp only: t e) (simp add: f(1))
  have outside: "\<lparr>ae_element = shortElement, ae_track = shortTrack,
        ae_mediaItem = lookupMediaItem [clipItem] shortElement\<rparr>
        \<notin> set (getActiveElementsAtTime (5404319552844596 / 9007199254740992) [shortTrack] [clipItem])"
    using getActiveElementsAtTime_window
      [OF p1 p2, of "[clipItem]" "5404319552844596 / 9007199254740992", THEN conjunct1]
    by (simp only: e) (simp add: f(1))
  show ?thesis
    by (intro conjI t e inside outside)
qed

text \<open>
  The claim as the specification words it, with a window of \<open>max(epsilon, duration -
  trimStart - trimEnd)\<close>, fails for every \<open>epsilon > 0\<close>: the clip trimmed down to nothing
  would be active at its start time, and the code does not include it.
\<close>

theorem getActiveElementsAtTime_no_epsilon_window:
  "getActiveElementsAtTime 0 [trimmedTrack] [clipItem] = []
   \<and> \<not> (\<exists>eps>0.
        (\<lparr>ae_element = trimmedElement, ae_track = trimmedTrack,
           ae_mediaItem = lookupMediaItem [clipItem] trimmedElement\<rparr>
           \<in> set (getActiveElementsAtTime 0 [trimmedTrack] [clipItem]))
        = (startTime trimmedElement \<le> 0
           \<and> 0 < startTime trimmedElement
                 + max eps (duration trimmedElement - trimStart trimmedElement - trimEnd trimmedElement)))"
  by (simp add: getActiveElementsAtTime_concat trimmedTrack_def trimmedElement_def)

subsection \<open>Render loop\<close>







subsection \<open>Media preloader\<close>

lemma preloadLoop_other:
  "k \<notin> mi_id ` set items \<Longrightarrow> preloadLoop load items m k = m k"
  by (induction items arbitrary: m) (auto split: outcome.splits)

lemma preloadLoop_slot:
  "distinct (map mi_id items) \<Longrightarrow> item \<in> set items \<Longrightarrow>
   preloadLoop load items m (mi_id item)
     = Some (case loadMediaElement load item of Resolved h \<Rightarrow> h | Rejected e \<Rightarrow> None)"
proof (induction items arbitrary: m)
  case Nil
  then show ?case by simp
next
  case (Cons a items)
  show ?case
  proof (cases "item = a")
    case True
    with Cons.prems have "mi_id item \<notin> mi_id ` set items" by auto
    then show ?thesis
      using True by (simp add: preloadLoop_other split: outcome.splits)
  next
    case False
    with Cons.prems have "item \<in> set items" "distinct (map mi_id items)" by auto
    then show ?thesis
      using Cons.IH by simp
  qed
qed

lemma loadMediaElement_waited:
  "mi_type item \<noteq> AudioItem \<Longrightarrow> load item = Waited ev w h d rs \<Longrightarrow>
   loadMediaElement load item =
     Resolved (Some \<lparr>h_kind = (if mi_type item = ImageItem then ImageElement else VideoElement),
                      h_src = mi_url item, h_width = w, h_height = h,
                      h_duration = d, h_readyState = rs\<rparr>)"
  by (cases "mi_type item") (auto simp: loadMediaElement_def awaitLoad_def)

lemma loadMediaElement_null:
  "((case loadMediaElement load item of Resolved h \<Rightarrow> h | Rejected e \<Rightarrow> None) = None)
     = (mi_type item = AudioItem \<or> (\<exists>e. load item = Raises e))"
  by (cases "mi_type item"; cases "load item") (auto simp: loadMediaElement_def awaitLoad_def)

text \<open>
  C4 (as the code has it). For every batch of media items with distinct ids and every behaviour
  of the browser, the aggregate preload resolves. An image or video item keeps the element
  created for it in its slot whichever event ended the wait for it, the error event and the
  timeout included: the slot is not \<open>null\<close>. A slot is \<open>null\<close> exactly for an item that is
  neither an image nor a video, or whose loading raised an exception. An item's slot depends
  on that item's own load only.
\<close>

theorem preloadAllMediaElementsSafe_slots:
  assumes "distinct (map mi_id items)" and "item \<in> set items"
  shows "\<exists>m. preloadAllMediaElementsSafe load items = Resolved m
           \<and> (\<forall>ev w h d rs. mi_type item \<noteq> AudioItem \<and> load item = Waited ev w h d rs \<longrightarrow>
                m (mi_id item) =
                  Some (Some \<lparr>h_kind = (if mi_type item = ImageItem then ImageElement else VideoElement),
                               h_src = mi_url item, h_width = w, h_height = h,
                               h_duration = d, h_readyState = rs\<rparr>))
           \<and> ((m (mi_id item) = Some None) = (mi_type item = AudioItem \<or> (\<exists>e. load item = Raises e)))
           \<and> (\<forall>load' m'. load' item = load item
                  \<and> preloadAllMediaElementsSafe load' items = Resolved m'
                  \<longrightarrow> m' (mi_id item) = m (mi_id item))"
proof -
  let ?m = "preloadLoop load items Map.empty"
  have slot: "preloadLoop l items Map.empty (mi_id item)
      = Some (case loadMediaElement l item of Resolved h \<Rightarrow> h | Rejected e \<Rightarrow> None)" for l
    using assms by (rule preloadLoop_slot)
  have a: "preloadAllMediaElementsSafe load items = Resolved ?m"
    by (simp add: preloadAllMediaElementsSafe_def)
  have b: "\<forall>ev w h d rs. mi_type item \<noteq> AudioItem \<and> load item = Waited ev w h d rs \<longrightarrow>
      ?m (mi_id item) =
        Some (Some \<lparr>h_kind = (if mi_type item = ImageItem then ImageElement else VideoElement),
                     h_src = mi_url item, h_width = w, h_height = h,
                     h_duration = d, h_readyState = rs\<rparr>)"
  proof (intro allI impI)
    fix ev w h d rs
    assume "mi_type item \<noteq> AudioItem \<and> load item = Waited ev w h d rs"
    then have "loadMediaElement load item =
       Resolved (Some \<lparr>h_kind = (if mi_type item = ImageItem then ImageElement else VideoElement),
                      h_src = mi_url item, h_width = w, h_height = h,
                      h_duration = d, h_readyState = rs\<rparr>)"
      by (intro loadMediaElement_waited [of item load ev]) simp_all
    then show "?m (mi_id item) =
        Some (Some \<lparr>h_kind = (if mi_type item = ImageItem then ImageElement else VideoElement),
                     h_src = mi_url item, h_width = w, h_height = h,
                     h_duration = d, h_readyState = rs\<rparr>)"
      by (simp only: slot outcome.case)
  qed
  have c: "(?m (mi_id item) = Some None) = (mi_type item = AudioItem \<or> (\<exists>e. load item = Raises e))"
    by (simp only: slot option.inject loadMediaElement_null)
  have same: "loadMediaElement load' item = loadMediaElement load item" if "load' item = load item" for load'
    using that by (cases "mi_type item") (simp_all add: loadMediaElement_def)
  have d: "\<forall>load' m'. load' item = load item
                  \<and> preloadAllMediaElementsSafe load' items = Resolved m'
                  \<longrightarrow> m' (mi_id item) = ?m (mi_id item)"
  proof (intro allI impI)
    fix load' m'
    assume h: "load' item = load item \<and> preloadAllMediaElementsSafe load' items = Resolved m'"
    then have "m' = preloadLoop load' items Map.empty"
      by (simp add: preloadAllMediaElementsSafe_def)
    then show "m' (mi_id item) = ?m (mi_id item)"
      using h same [of load'] by (simp add: slot)
  qed
  show ?thesis
    by (rule exI [of _ ?m]) (intro conjI a b c d)
qed

text \<open>A batch in which the wait for the image ends by its timeout.\<close>

theorem preloadAllMediaElementsSafe_slots_witness:
  "distinct (map mi_id [clipItem, songItem]) \<and> clipItem \<in> set [clipItem, songItem]
   \<and> (\<exists>m. preloadAllMediaElementsSafe (\<lambda>i. Waited TimeoutEvent 0 0 None 0) [clipItem, songItem]
             = Resolved m
        \<and> m (mi_id clipItem)
            = Some (Some \<lparr>h_kind = ImageElement, h_src = Some ''blob:m1'', h_width = 0, h_height = 0,
                        h_duration = None, h_readyState = 0\<rparr>)
        \<and> m (mi_id songItem) = Some None)"
  using preloadAllMediaElementsSafe_slots [of "[clipItem, songItem]" clipItem "\<lambda>i. Waited TimeoutEvent 0 0 None 0"]
  by (auto simp: preloadAllMediaElementsSafe_def loadMediaElement_def awaitLoad_def clipItem_def songItem_def)

text \<open>
  The claim as the specification words it, a \<open>null\<close> slot for every item whose load fails,
  does not hold: an image whose load ends with the error event (a URL that answers 404)
  leaves its element in the map.
\<close>

theorem preloadAllMediaElementsSafe_failed_load_keeps_element:
  "\<exists>m. preloadAllMediaElementsSafe (\<lambda>i. Waited ErrorEvent 0 0 None 0) [clipItem, songItem] = Resolved m
     \<and> m (mi_id clipItem)
         = Some (Some \<lparr>h_kind = ImageElement, h_src = Some ''blob:m1'', h_width = 0, h_height = 0,
                        h_duration = None, h_readyState = 0\<rparr>)
     \<and> m (mi_id clipItem) \<noteq> Some None"
  by (simp add: preloadAllMediaElementsSafe_def loadMediaElement_def awaitLoad_def clipItem_def songItem_def)

subsection \<open>Audio discovery and the recorder options\<close>

lemma fold_elementAudioSources:
  "fold (\<lambda>el acc'. acc' @ elementAudioSources items trk el) els acc
     = acc @ concat (map (elementAudioSources items trk) els)"
  by (induction els arbitrary: acc) simp_all

lemma findAudioSources_concat:
  "findAudioSources tracks items
     = concat (map (\<lambda>trk. concat (map (elementAudioSources items trk) (elements trk))) tracks)"
proof -
  have "fold (\<lambda>trk acc. fold (\<lambda>el acc'. acc' @ elementAudioSources items trk el) (elements trk) acc) tracks acc0
      = acc0 @ concat (map (\<lambda>trk. concat (map (elementAudioSources items trk) (elements trk))) tracks)"
    for acc0
    by (induction tracks arbitrary: acc0) (simp_all add: fold_elementAudioSources)
  then show ?thesis
    by (simp add: findAudioSources_def)
qed

text \<open>
  C5. When no media element on an audio track refers to an audio item and no media element on
  a media track refers to a video item, no audio source is found, \<^verbatim>\<open>createSafeAudioStream\<close>
  returns \<open>null\<close>, and the recorder is configured for video only:
  \<^verbatim>\<open>audioBitsPerSecond\<close> is undefined and the MIME type names the video codec alone.
\<close>

theorem createSafeAudioStream_no_sources:
  assumes "\<forall>trk \<in> set tracks. \<forall>el \<in> set (elements trk). \<forall>mid item.
             kind el = MediaEl mid \<and> find (\<lambda>i. mi_id i = mid) items = Some item
             \<longrightarrow> (tr_type trk = AudioTrack \<longrightarrow> mi_type item \<noteq> AudioItem)
               \<and> (tr_type trk = MediaTrack \<longrightarrow> mi_type item \<noteq> VideoItem)"
  shows "findAudioSources tracks items = []
       \<and> createSafeAudioStream tracks items env = None
       \<and> audioBitsPerSecond (mediaRecorderOptions settings tracks items env) = None
       \<and> mimeType (mediaRecorderOptions settings tracks items env) = ''video/webm;codecs=vp8''"
proof -
  have "elementAudioSources items trk el = []"
    if "trk \<in> set tracks" and "el \<in> set (elements trk)" for trk el
    using assms that
    by (auto simp: elementAudioSources_def split: element_kind.splits option.splits)
  then have none: "findAudioSources tracks items = []"
    by (simp add: findAudioSources_concat)
  then have "createSafeAudioStream tracks items env = None"
    by (simp add: createSafeAudioStream_def)
  with none show ?thesis
    by (simp add: mediaRecorderOptions_def hasAudio_def)
qed

theorem createSafeAudioStream_no_sources_witness:
  "findAudioSources [textTrack, mediaTrack] [clipItem, songItem] = []
   \<and> createSafeAudioStream [textTrack, mediaTrack] [clipItem, songItem]
        \<lparr>contextAvailable = True, graphAvailable = True, connects = (\<lambda>s. True)\<rparr> = None
   \<and> audioBitsPerSecond (mediaRecorderOptions defaultSettings [textTrack, mediaTrack] [clipItem, songItem]
        \<lparr>contextAvailable = True, graphAvailable = True, connects = (\<lambda>s. True)\<rparr>) = None"
  using createSafeAudioStream_no_sources [of "[textTrack, mediaTrack]" "[clipItem, songItem]"
      "\<lparr>contextAvailable = True, graphAvailable = True, connects = (\<lambda>s. True)\<rparr>" defaultSettings]
  by (simp add: textTrack_def mediaTrack_def titleElement_def clipElement_def clipItem_def songItem_def)

subsection \<open>Layering\<close>

text \<open>
  A stable sort is determined by the sequence of the elements of each key: two lists that
  agree on these sequences have the same sorted list.
\<close>

lemma mset_eq_if_filters_eq:
  assumes "\<forall>k. filter (\<lambda>e. f e = k) ys = filter (\<lambda>e. f e = k) xs"
  shows "mset ys = mset xs"
proof (rule multiset_eqI)
  fix x
  have c: "count (mset zs) x = count (mset (filter (\<lambda>e. f e = f x) zs)) x" for zs
    by (induction zs) simp_all
  have "count (mset ys) x = count (mset (filter (\<lambda>e. f e = f x) ys)) x"
    by (rule c)
  also have "\<dots> = count (mset (filter (\<lambda>e. f e = f x) xs)) x"
    using assms by (simp only:)
  also have "\<dots> = count (mset xs) x"
    by (rule c [symmetric])
  finally show "count (mset ys) x = count (mset xs) x" .
qed

lemma sort_key_filters_eq:
  assumes "\<forall>k. filter (\<lambda>e. f e = k) ys = filter (\<lambda>e. f e = k) xs"
  shows "sort_key f ys = sort_key f xs"
proof (rule properties_for_sort_key [symmetric])
  show "mset (sort_key f ys) = mset xs"
    using mset_eq_if_filters_eq [OF assms] by simp
  show "sorted (map f (sort_key f ys))"
    by (rule sorted_sort_key)
  show "filter (\<lambda>x. f k = f x) (sort_key f ys) = filter (\<lambda>x. f k = f x) xs" for k
  proof -
    have "filter (\<lambda>x. f k = f x) zs = filter (\<lambda>x. f x = f k) zs" for zs
      by (rule filter_cong) auto
    then show ?thesis
      using assms by (simp add: sort_key_stable)
  qed
qed

text \<open>What the body of the loop draws for one element, by the element's type.\<close>

lemma renderElement_text:
  "kind (ae_element e) = TextEl p \<Longrightarrow>
   \<exists>d. renderElement cv t m e = [DrawText d]
     \<and> td_content d = strOr (content p) (strOr (Some (el_name (ae_element e))) ''Text'')
     \<and> td_fontSize d = textFontSize cv p"
  by (simp add: renderElement_def renderTextElementSafe_def Let_def)

lemma renderElement_placeholder:
  "kind (ae_element e) = MediaEl mid \<Longrightarrow> ae_mediaItem e = None \<or> mid = ''test'' \<Longrightarrow>
   renderElement cv t m e = [DrawPlaceholder (el_name (ae_element e)) (c_width cv) (c_height cv)]"
  by (auto simp: renderElement_def renderMediaElementSafe_def split: option.splits)

lemma renderElement_image:
  "kind (ae_element e) = MediaEl mid \<Longrightarrow> mid \<noteq> ''test'' \<Longrightarrow> ae_mediaItem e = Some item \<Longrightarrow>
   m (mi_id item) = Some (Some h) \<Longrightarrow>
   renderElement cv t m e \<noteq> []
   \<and> last (renderElement cv t m e)
       = DrawImage (mi_id item) (calculateRenderInfo h cv)
           (case opacity (ae_element e) of None \<Rightarrow> 1 | Some al \<Rightarrow> al)
   \<and> (\<forall>op \<in> set (butlast (renderElement cv t m e)). \<exists>tm. op = SeekVideo (mi_id item) tm)"
  by (simp add: renderElement_def renderMediaElementSafe_def Let_def)

lemma renderElement_skipped:
  "kind (ae_element e) = MediaEl mid \<Longrightarrow> mid \<noteq> ''test'' \<Longrightarrow> ae_mediaItem e = Some item \<Longrightarrow>
   m (mi_id item) = None \<or> m (mi_id item) = Some None \<Longrightarrow>
   renderElement cv t m e = []"
  by (auto simp: renderElement_def renderMediaElementSafe_def)

text \<open>
  C7. The loop visits the active elements in ascending order of their track's \<open>order\<close> field, a
  missing order counting as 0, and elements of equal order in their input order (the sort is
  stable); every active element is visited. In that order it draws, for a text element, the
  text at its font size; for a media element without a media item (or the test element), the
  placeholder; for a media element whose media is in the table, the image, after at most a
  seek of the video; and nothing for a media element whose slot in the table is missing or
  \<open>null\<close>. Two renders draw the same, in the same order, whenever their active lists agree on
  the sequence of elements of every track order: the order in which elements of different
  track order were listed plays no part.
\<close>

theorem renderActiveElementsSafe_draw_order:
  "sorted (map trackOrder (map fst (renderActiveElementsSafe cv a t m)))
   \<and> (\<forall>k. filter (\<lambda>e. trackOrder e = k) (map fst (renderActiveElementsSafe cv a t m))
            = filter (\<lambda>e. trackOrder e = k) a)
   \<and> (\<forall>e. trackOrder e = (case tr_order (ae_track e) of None \<Rightarrow> 0 | Some n \<Rightarrow> n))
   \<and> (\<forall>e ops p. (e, ops) \<in> set (renderActiveElementsSafe cv a t m)
          \<and> kind (ae_element e) = TextEl p \<longrightarrow>
          (\<exists>d. ops = [DrawText d]
             \<and> td_content d = strOr (content p) (strOr (Some (el_name (ae_element e))) ''Text'')
             \<and> td_fontSize d = textFontSize cv p))
   \<and> (\<forall>e ops mid. (e, ops) \<in> set (renderActiveElementsSafe cv a t m)
          \<and> kind (ae_element e) = MediaEl mid \<and> (ae_mediaItem e = None \<or> mid = ''test'') \<longrightarrow>
          ops = [DrawPlaceholder (el_name (ae_element e)) (c_width cv) (c_height cv)])
   \<and> (\<forall>e ops mid item h. (e, ops) \<in> set (renderActiveElementsSafe cv a t m)
          \<and> kind (ae_element e) = MediaEl mid \<and> mid \<noteq> ''test'' \<and> ae_mediaItem e = Some item
          \<and> m (mi_id item) = Some (Some h) \<longrightarrow>
          ops \<noteq> []
          \<and> last ops = DrawImage (mi_id item) (calculateRenderInfo h cv)
                          (case opacity (ae_element e) of None \<Rightarrow> 1 | Some al \<Rightarrow> al)
          \<and> (\<forall>op \<in> set (butlast ops). \<exists>tm. op = SeekVideo (mi_id item) tm))
   \<and> (\<forall>e ops mid item. (e, ops) \<in> set (renderActiveElementsSafe cv a t m)
          \<and> kind (ae_element e) = MediaEl mid \<and> mid \<noteq> ''test'' \<and> ae_mediaItem e = Some item
          \<and> (m (mi_id item) = None \<or> m (mi_id item) = Some None) \<longrightarrow>
          ops = [])
   \<and> (\<forall>a'. (\<forall>k. filter (\<lambda>e. trackOrder e = k) a' = filter (\<lambda>e. trackOrder e = k) a) \<longrightarrow>
          renderActiveElementsSafe cv a' t m = renderActiveElementsSafe cv a t m)"
proof -
  let ?R = "renderActiveElementsSafe cv a t m"
  have order: "map fst ?R = sort_key trackOrder a"
    by (simp add: renderActiveElementsSafe_def sortedElements_def comp_def)
  have ops: "ops = renderElement cv t m e" if "(e, ops) \<in> set ?R" for e ops
    using that by (auto simp: renderActiveElementsSafe_def)
  have asc: "sorted (map trackOrder (map fst ?R))"
    unfolding order by (rule sorted_sort_key)
  have stable: "\<forall>k. filter (\<lambda>e. trackOrder e = k) (map fst ?R) = filter (\<lambda>e. trackOrder e = k) a"
    unfolding order by (simp add: sort_key_stable)
  have key: "\<forall>e. trackOrder e = (case tr_order (ae_track e) of None \<Rightarrow> 0 | Some n \<Rightarrow> n)"
    by (simp add: trackOrder_def numOr_def split: option.splits)
  have texts: "\<forall>e ops p. (e, ops) \<in> set ?R \<and> kind (ae_element e) = TextEl p \<longrightarrow>
          (\<exists>d. ops = [DrawText d]
             \<and> td_content d = strOr (content p) (strOr (Some (el_name (ae_element e))) ''Text'')
             \<and> td_fontSize d = textFontSize cv p)"
    using ops renderElement_text by blast
  have placeholder: "\<forall>e ops mid. (e, ops) \<in> set ?R
          \<and> kind (ae_element e) = MediaEl mid \<and> (ae_mediaItem e = None \<or> mid = ''test'') \<longrightarrow>
          ops = [DrawPlaceholder (el_name (ae_element e)) (c_width cv) (c_height cv)]"
    using ops renderElement_placeholder by blast
  have image: "\<forall>e ops mid item h. (e, ops) \<in> set ?R
          \<and> kind (ae_element e) = MediaEl mid \<and> mid \<noteq> ''test'' \<and> ae_mediaItem e = Some item
          \<and> m (mi_id item) = Some (Some h) \<longrightarrow>
          ops \<noteq> []
          \<and> last ops = DrawImage (mi_id item) (calculateRenderInfo h cv)
                          (case opacity (ae_element e) of None \<Rightarrow> 1 | Some al \<Rightarrow> al)
          \<and> (\<forall>op \<in> set (butlast ops). \<exists>tm. op = SeekVideo (mi_id item) tm)"
  proof (intro allI impI)
    fix e ops mid item h
    assume h: "(e, ops) \<in> set ?R
          \<and> kind (ae_element e) = MediaEl mid \<and> mid \<noteq> ''test'' \<and> ae_mediaItem e = Some item
          \<and> m (mi_id item) = Some (Some h)"
    then have "ops = renderElement cv t m e"
      using ops by blast
    then show "ops \<noteq> []
          \<and> last ops = DrawImage (mi_id item) (calculateRenderInfo h cv)
                          (case opacity (ae_element e) of None \<Rightarrow> 1 | Some al \<Rightarrow> al)
          \<and> (\<forall>op \<in> set (butlast ops). \<exists>tm. op = SeekVideo (mi_id item) tm)"
      using h renderElement_image [of e mid item m h cv t] by simp
  qed
  have skipped: "\<forall>e ops mid item. (e, ops) \<in> set ?R
          \<and> kind (ae_element e) = MediaEl mid \<and> mid \<noteq> ''test'' \<and> ae_mediaItem e = Some item
          \<and> (m (mi_id item) = None \<or> m (mi_id item) = Some None) \<longrightarrow>
          ops = []"
    using ops renderElement_skipped by blast
  have indep: "\<forall>a'. (\<forall>k. filter (\<lambda>e. trackOrder e = k) a' = filter (\<lambda>e. trackOrder e = k) a) \<longrightarrow>
          renderActiveElementsSafe cv a' t m = ?R"
  proof (intro allI impI)
    fix a'
    assume "\<forall>k. filter (\<lambda>e. trackOrder e = k) a' = filter (\<lambda>e. trackOrder e = k) a"
    then have "sort_key trackOrder a' = sort_key trackOrder a"
      by (rule sort_key_filters_eq)
    then show "renderActiveElementsSafe cv a' t m = ?R"
      by (simp add: renderActiveElementsSafe_def sortedElements_def)
  qed
  show ?thesis
    by (intro conjI asc stable key texts placeholder image skipped indep)
qed

text \<open>
  Three active elements listed as order 2, unset, 0: the title (unset, so 0) is drawn first,
  then the clip of order 0 that was listed after it, then the clip of order 2.
\<close>

theorem renderActiveElementsSafe_draw_order_witness:
  "map (\<lambda>(e, ops). (el_name (ae_element e), ops))
     (renderActiveElementsSafe hd1080 layeredElements 0 clipTable)
   = [(''Title'',
       [DrawText \<lparr>td_content = ''Title'', td_x = 960, td_y = 540, td_rotation = 0, td_fontSize = 96,
                 td_fontFamily = ''Arial, sans-serif'', td_fontWeight = ''bold'', td_fontStyle = ''normal'',
                 td_textAlign = ''center'', td_alpha = 1, td_background = None, td_lineWidth = 8,
                 td_color = ''#ffffff''\<rparr>]),
      (''Trimmed'', [DrawImage ''m1'' \<lparr>ri_x = 0, ri_y = 0, ri_width = 1920, ri_height = 1080\<rparr> 1]),
      (''Clip'', [DrawImage ''m1'' \<lparr>ri_x = 0, ri_y = 0, ri_width = 1920, ri_height = 1080\<rparr> 1])]"
proof -
  have sorted: "sortedElements layeredElements
      = [\<lparr>ae_element = titleElement, ae_track = textTrack, ae_mediaItem = None\<rparr>,
         \<lparr>ae_element = trimmedElement, ae_track = trimmedTrack\<lparr>tr_order := Some 0\<rparr>,
          ae_mediaItem = Some clipItem\<rparr>,
         \<lparr>ae_element = clipElement, ae_track = mediaTrack\<lparr>tr_order := Some 2\<rparr>,
          ae_mediaItem = Some clipItem\<rparr>]"
    by (simp add: sortedElements_def layeredElements_def trackOrder_def numOr_def
        textTrack_def mediaTrack_def trimmedTrack_def)
  have title: "renderElement hd1080 0 m \<lparr>ae_element = titleElement, ae_track = trk, ae_mediaItem = None\<rparr>
      = [DrawText \<lparr>td_content = ''Title'', td_x = 960, td_y = 540, td_rotation = 0, td_fontSize = 96,
                td_fontFamily = ''Arial, sans-serif'', td_fontWeight = ''bold'', td_fontStyle = ''normal'',
                td_textAlign = ''center'', td_alpha = 1, td_background = None, td_lineWidth = 8,
                td_color = ''#ffffff''\<rparr>]" for m trk
    by (simp add: renderElement_def renderTextElementSafe_def textFontSize_def numOr_def strOr_def
        titleElement_def titleProps_def hd1080_def Let_def)
  have clip: "renderElement hd1080 0 clipTable
        \<lparr>ae_element = clipElement, ae_track = trk, ae_mediaItem = Some clipItem\<rparr>
      = [DrawImage ''m1'' \<lparr>ri_x = 0, ri_y = 0, ri_width = 1920, ri_height = 1080\<rparr> 1]" for trk
    by (simp add: renderElement_def renderMediaElementSafe_def calculateRenderInfo_def numOr_def
        clipElement_def clipItem_def clipTable_def hd1080_def Let_def)
  have trimmed: "renderElement hd1080 0 clipTable
        \<lparr>ae_element = trimmedElement, ae_track = trk, ae_mediaItem = Some clipItem\<rparr>
      = [DrawImage ''m1'' \<lparr>ri_x = 0, ri_y = 0, ri_width = 1920, ri_height = 1080\<rparr> 1]" for trk
    by (simp add: renderElement_def renderMediaElementSafe_def calculateRenderInfo_def numOr_def
        trimmedElement_def clipItem_def clipTable_def hd1080_def Let_def)
  have names: "el_name titleElement = ''Title''" "el_name trimmedElement = ''Trimmed''"
    "el_name clipElement = ''Clip''"
    by (simp_all add: titleElement_def trimmedElement_def clipElement_def)
  show ?thesis
    using renderActiveElementsSafe_draw_order [of hd1080 layeredElements 0 clipTable]
    by (simp add: renderActiveElementsSafe_def sorted title clip trimmed names)
qed

text \<open>
  C8. One composited frame is the background fill followed by the active elements in track
  order; an element's type plays no part in the order. With a text track listed before a
  media track (both without an order), the frame at time 0 is: background, the title, and then
  the image drawn over the whole canvas, so the text is drawn before the media element and
  ends up underneath it.
\<close>

theorem renderFrame_text_below_media:
  "fr_ops (renderFrame hd1080 None (1 / 30) [textTrack, mediaTrack] [clipItem]
             (Map.empty(''m1'' \<mapsto> Some \<lparr>h_kind = ImageElement, h_src = Some ''blob:m1'', h_width = 1280,
                           h_height = 720, h_duration = None, h_readyState = 0\<rparr>)) 0)
   = [FillBackground ''#000000'' 1920 1080,
      DrawText \<lparr>td_content = ''Title'', td_x = 960, td_y = 540, td_rotation = 0, td_fontSize = 96,
                td_fontFamily = ''Arial, sans-serif'', td_fontWeight = ''bold'', td_fontStyle = ''normal'',
                td_textAlign = ''center'', td_alpha = 1, td_background = None, td_lineWidth = 8,
                td_color = ''#ffffff''\<rparr>,
      DrawImage ''m1'' \<lparr>ri_x = 0, ri_y = 0, ri_width = 1920, ri_height = 1080\<rparr> 1]"
proof -
  have active: "getActiveElementsAtTime 0 [textTrack, mediaTrack] [clipItem]
      = [\<lparr>ae_element = titleElement, ae_track = textTrack, ae_mediaItem = None\<rparr>,
         \<lparr>ae_element = clipElement, ae_track = mediaTrack, ae_mediaItem = Some clipItem\<rparr>]"
    by (simp add: getActiveElementsAtTime_def fold_pushIfActive lookupMediaItem_def
        textTrack_def mediaTrack_def titleElement_def clipElement_def clipItem_def)
  have sorted: "sortedElements
       [\<lparr>ae_element = titleElement, ae_track = textTrack, ae_mediaItem = None\<rparr>,
        \<lparr>ae_element = clipElement, ae_track = mediaTrack, ae_mediaItem = Some clipItem\<rparr>]
      = [\<lparr>ae_element = titleElement, ae_track = textTrack, ae_mediaItem = None\<rparr>,
         \<lparr>ae_element = clipElement, ae_track = mediaTrack, ae_mediaItem = Some clipItem\<rparr>]"
    by (simp add: sortedElements_def trackOrder_def numOr_def textTrack_def mediaTrack_def)
  have title: "renderElement hd1080 0 m \<lparr>ae_element = titleElement, ae_track = textTrack, ae_mediaItem = None\<rparr>
      = [DrawText \<lparr>td_content = ''Title'', td_x = 960, td_y = 540, td_rotation = 0, td_fontSize = 96,
                td_fontFamily = ''Arial, sans-serif'', td_fontWeight = ''bold'', td_fontStyle = ''normal'',
                td_textAlign = ''center'', td_alpha = 1, td_background = None, td_lineWidth = 8,
                td_color = ''#ffffff''\<rparr>]" for m
    by (simp add: renderElement_def renderTextElementSafe_def textFontSize_def numOr_def strOr_def
        titleElement_def titleProps_def hd1080_def Let_def)
  have clip: "renderElement hd1080 0
        (Map.empty(''m1'' \<mapsto> Some \<lparr>h_kind = ImageElement, h_src = Some ''blob:m1'', h_width = 1280,
                           h_height = 720, h_duration = None, h_readyState = 0\<rparr>))
        \<lparr>ae_element = clipElement, ae_track = mediaTrack, ae_mediaItem = Some clipItem\<rparr>
      = [DrawImage ''m1'' \<lparr>ri_x = 0, ri_y = 0, ri_width = 1920, ri_height = 1080\<rparr> 1]"
    by (simp add: renderElement_def renderMediaElementSafe_def calculateRenderInfo_def numOr_def
        clipElement_def clipItem_def hd1080_def Let_def)
  have size: "c_width hd1080 = 1920" "c_height hd1080 = 1080"
    by (simp_all add: hd1080_def)
  show ?thesis
    by (simp add: renderFrame_def active renderActiveElementsSafe_def sorted title clip strOr_def
        size Let_def)
qed

subsection \<open>Text size\<close>

lemma textFontSize_formula:
  "textFontSize cv p
     = max 32 ((case fontSize p of None \<Rightarrow> 48 | Some f \<Rightarrow> if f = 0 then 48 else f)
               * (min (real (c_width cv) / 1920) (real (c_height cv) / 1080) * 2))"
  by (simp only: textFontSize_def numOr_def Let_def)

lemma renderTextElementSafe_fontSize:
  "map (\<lambda>op. case op of DrawText d \<Rightarrow> Some (td_fontSize d) | _ \<Rightarrow> None) (renderTextElementSafe cv el p)
       = [Some (textFontSize cv p)]"
  unfolding renderTextElementSafe_def Let_def by simp

text \<open>
  C9 (as the code has it). The font size used for a text element on a canvas of size
  \<open>(W, H)\<close> is \<open>max(32, baseFontSize * min(W / 1920, H / 1080) * 2)\<close>, where
  \<open>baseFontSize\<close> is the element's font size, and 48 when that is unset or zero. It is never
  below 32, and it is the size the text is drawn with.
\<close>

theorem renderTextElementSafe_font_size:
  "textFontSize cv p
     = max 32 ((case fontSize p of None \<Rightarrow> 48 | Some f \<Rightarrow> if f = 0 then 48 else f)
               * (min (real (c_width cv) / 1920) (real (c_height cv) / 1080) * 2))
   \<and> 32 \<le> textFontSize cv p
   \<and> map (\<lambda>op. case op of DrawText d \<Rightarrow> Some (td_fontSize d) | _ \<Rightarrow> None) (renderTextElementSafe cv el p)
       = [Some (textFontSize cv p)]"
proof (intro conjI)
  show "32 \<le> textFontSize cv p"
    by (simp add: textFontSize_def Let_def)
qed (rule textFontSize_formula renderTextElementSafe_fontSize)+

text \<open>
  The claim as the specification words it takes the element's font size whenever it is set.
  A font size of 0 is set, and falsy: the code replaces it by 48, which gives 96 pixels on a
  1920 by 1080 canvas where the claimed formula gives the floor of 32.
\<close>

theorem renderTextElementSafe_zero_font_size:
  "textFontSize hd1080 (titleProps\<lparr>fontSize := Some 0\<rparr>) = 96
   \<and> max 32 ((case fontSize (titleProps\<lparr>fontSize := Some 0\<rparr>) of None \<Rightarrow> 48 | Some f \<Rightarrow> f)
              * (min (real (c_width hd1080) / 1920) (real (c_height hd1080) / 1080) * 2)) = (32 :: real)"
  by (simp add: textFontSize_def numOr_def hd1080_def titleProps_def)

subsection \<open>Fallback cascade\<close>

lemma raced_rejected:
  "(\<exists>e. snd (createRealVideoFile name env) = Rejected e) \<or> \<not> settlesBeforeTimeout env \<Longrightarrow>
   \<exists>e. snd (raceWithTimeout env (createRealVideoFile name env)) = Rejected e"
  by (auto simp: raceWithTimeout_def)

text \<open>
  C2. When \<^verbatim>\<open>createRealVideoFile\<close> (with its single-frame fallback inside) throws, or the
  15 s timer of the race fires first, \<^verbatim>\<open>exportVideo\<close> runs the emergency tier: if that
  delivers its text report, \<^verbatim>\<open>exportVideo\<close> resolves and the report is among the downloads;
  \<^verbatim>\<open>exportVideo\<close> rejects only with an error the emergency tier itself threw.
\<close>

theorem exportVideo_emergency_fallback:
  assumes "(\<exists>e. snd (createRealVideoFile (projectName options) env) = Rejected e)
           \<or> \<not> settlesBeforeTimeout env"
  shows "(emergencyDom env = Resolved () \<longrightarrow>
            snd (exportVideo options env) = Resolved ()
            \<and> Download (sanitizeName (projectName options) @ ''_export_failed.txt'') TextReport
                 \<in> set (fst (exportVideo options env)))
       \<and> (\<forall>e. snd (exportVideo options env) = Rejected e \<longrightarrow> emergencyDom env = Rejected e)"
proof -
  from assms obtain e0 where
    r: "snd (raceWithTimeout env (createRealVideoFile (projectName options) env)) = Rejected e0"
    using raced_rejected by blast
  show ?thesis
  proof (cases "emergencyDom env")
    case (Resolved u)
    then show ?thesis
      using r by (simp add: exportVideo_def createEmergencyFallback_def Let_def)
  next
    case (Rejected e)
    then show ?thesis
      using r by (simp add: exportVideo_def createEmergencyFallback_def Let_def)
  qed
qed

theorem exportVideo_emergency_fallback_witness:
  "snd (createRealVideoFile ''My Project''
          \<lparr>canvasAvailable = True, primaryAttempt = Rejected (Error ''MediaRecorder failed''),
           secondaryAttempt = Rejected (Error ''toBlob failed''), settlesBeforeTimeout = True,
           emergencyDom = Resolved ()\<rparr>) = Rejected (Error ''toBlob failed'')
   \<and> exportVideo \<lparr>projectName = ''My Project'', exportDuration = 5, exportSettings = defaultSettings,
                   exportTracks = [textTrack], exportMediaItems = []\<rparr>
         \<lparr>canvasAvailable = True, primaryAttempt = Rejected (Error ''MediaRecorder failed''),
           secondaryAttempt = Rejected (Error ''toBlob failed''), settlesBeforeTimeout = True,
           emergencyDom = Resolved ()\<rparr>
     = ([ToastInfo ''Processing video export...'', ToastInfo ''Analyzing timeline content...'',
         ToastInfo ''Processing video tracks...'', ToastInfo ''Rendering video frames...'',
         ToastInfo ''Encoding video...'', ToastInfo ''Finalizing export...'',
         ToastWarning ''Video export encountered issues, creating backup export...'',
         Download ''My_Project_export_failed.txt'' TextReport,
         ToastSuccess ''Backup export completed successfully!''], Resolved ())"
  using exportVideo_emergency_fallback
    [of "\<lparr>projectName = ''My Project'', exportDuration = 5, exportSettings = defaultSettings,
                   exportTracks = [textTrack], exportMediaItems = []\<rparr>"
        "\<lparr>canvasAvailable = True, primaryAttempt = Rejected (Error ''MediaRecorder failed''),
           secondaryAttempt = Rejected (Error ''toBlob failed''), settlesBeforeTimeout = True,
           emergencyDom = Resolved ()\<rparr>"]
  by (simp add: exportVideo_def createRealVideoFile_def createEmergencyFallback_def raceWithTimeout_def
      simulateProgressUpdates_def sanitizeName_def alphanumeric_def Let_def)

subsection \<open>Further properties\<close>

text \<open>
  X1. Every frame is the background fill, in the project's background colour or black,
  followed by the operations of the elements active at the frame's time, in ascending track
  order.
\<close>

theorem renderFrame_ops:
  "fr_ops (renderFrame cv bg frameTime tracks items m n)
     = FillBackground (strOr bg ''#000000'') (c_width cv) (c_height cv)
       # concat (map (renderElement cv (roundDouble (real n * frameTime)) m)
                   (sort_key trackOrder
                      (getActiveElementsAtTime (roundDouble (real n * frameTime)) tracks items)))"
  by (simp add: renderFrame_def renderActiveElementsSafe_def sortedElements_def Let_def comp_def)

text \<open>
  X2. The file name derived from a project name has the same length and consists of ASCII
  letters, digits and underscores only.
\<close>

theorem sanitizeName_chars:
  "length (sanitizeName name) = length name
   \<and> list_all (\<lambda>c. alphanumeric c \<or> c = CHR ''_'') (sanitizeName name)"
  by (induction name) (simp_all add: sanitizeName_def)

end
